theory Spec2Isabelle
  imports Complex_Main "HOL-Library.AList"
begin

section \<open>Worker mesh: agent records and routing (src/executors/agent\_mesh.py)\<close>

text \<open>
  Python exceptions that the modelled code can raise are values of \<open>error\<close>; a function
  that may raise returns \<open>error + 'a\<close> with \<open>Inl\<close> for the exception.
\<close>

datatype error = ZeroDivisionError | OverflowError | SendError | CancelledError

subsection \<open>Floats\<close>

text \<open>
  A Python \<open>float\<close> is an IEEE 754 double. A finite double is modelled as the rational
  number it denotes (the two zeros are one value, which no comparison tells apart).
  \<open>float_of_fraction n d\<close> is the double nearest to \<open>n / d\<close>, ties to the even
  significand: 53 significant bits, least exponent \<open>-1022\<close> (below it the spacing stays
  \<open>2 ^ -1074\<close>), and \<open>OverflowError\<close> when the rounded value would reach \<open>2 ^ 1024\<close>, that
  is when \<open>\<bar>n / d\<bar>\<close> is at least \<open>2 ^ 1024 - 2 ^ 970\<close>.
\<close>

function bit_length :: "int \<Rightarrow> nat" where
  "bit_length n = (if n \<le> 0 then 0 else Suc (bit_length (n div 2)))"
  by auto

termination bit_length
  by (relation "measure nat") auto

declare bit_length.simps [simp del]

definition round_half_even :: "rat \<Rightarrow> int" where
  "round_half_even x =
     (let f = \<lfloor>x\<rfloor>; r = x - of_int f
      in if r < 1 / 2 then f
         else if 1 / 2 < r then f + 1
         else if even f then f else f + 1)"

definition float_of_fraction :: "int \<Rightarrow> int \<Rightarrow> error + rat" where
  "float_of_fraction n d =
     (let q = of_int n / of_int d :: rat
      in if n = 0 then Inr 0
         else if (2 ^ 54 - 1) * 2 ^ 970 \<le> \<bar>q\<bar> then Inl OverflowError
         else
           let k = int (bit_length \<bar>n\<bar>) - int (bit_length \<bar>d\<bar>);
               e = (if 2 powi k \<le> \<bar>q\<bar> then k else k - 1);
               ulp = 2 powi (max e (- 1022) - 52)
           in Inr (of_int (round_half_even (q / ulp)) * ulp))"

text \<open>
  Python's \<open>a / b\<close> on integers: \<open>ZeroDivisionError\<close> when \<open>b\<close> is zero, otherwise the
  correctly rounded quotient, or \<open>OverflowError\<close> when it is too large for a float.
\<close>

definition truediv :: "int \<Rightarrow> int \<Rightarrow> error + rat" where
  "truediv a b = (if b = 0 then Inl ZeroDivisionError else float_of_fraction a b)"

text \<open>
  \<open>x - y\<close> on floats: the double nearest to the exact difference. The subtraction does
  not raise: a difference too large for a float is an infinity, here \<open>Inl OverflowError\<close>
  (its sign is the sign of the exact difference).
\<close>

definition float_sub :: "rat \<Rightarrow> rat \<Rightarrow> error + rat" where
  "float_sub x y = (case quotient_of (x - y) of (n, d) \<Rightarrow> float_of_fraction n d)"

subsection \<open>Agent records\<close>

definition HEARTBEAT_INTERVAL :: rat where
  "HEARTBEAT_INTERVAL = 30"

definition HEARTBEAT_TIMEOUT :: rat where
  "HEARTBEAT_TIMEOUT = 90"

text \<open>
  The dataclass \<open>AgentInfo\<close>. The websocket \<open>ws\<close> is a connection handle or \<open>None\<close>;
  \<open>capabilities\<close> is a set of tags; \<open>project_paths\<close> is a dict from project name to path,
  kept as an association list in insertion order. \<open>running_tasks\<close> and \<open>max_concurrent\<close>
  are Python integers, which are unbounded; the two timestamps are floats.
\<close>

record AgentInfo =
  agent_id :: string
  hostname :: string
  os_name :: string
  ws :: "nat option"
  capabilities :: "string set"
  project_paths :: "(string \<times> string) list"
  running_tasks :: int
  max_concurrent :: int
  last_heartbeat :: rat
  connected_at :: rat

text \<open>
  The property \<open>is_alive\<close> reads the clock; \<open>now\<close> is the value of \<open>time.time()\<close>, a
  float like \<open>last_heartbeat\<close>. An infinite difference is below the timeout exactly when
  it is negative.
\<close>

definition is_alive :: "rat \<Rightarrow> AgentInfo \<Rightarrow> bool" where
  "is_alive now a \<longleftrightarrow>
     (case float_sub now (last_heartbeat a) of
        Inr elapsed \<Rightarrow> elapsed < HEARTBEAT_TIMEOUT
      | Inl e \<Rightarrow> now - last_heartbeat a < 0)"

definition available_slots :: "AgentInfo \<Rightarrow> int" where
  "available_slots a = max 0 (max_concurrent a - running_tasks a)"

definition load_ratio :: "AgentInfo \<Rightarrow> error + rat" where
  "load_ratio a =
     (if max_concurrent a = 0 then Inr 1
      else truediv (running_tasks a) (max_concurrent a))"

text \<open>
  \<open>list.sort(key=f)\<close>: the key of every element is computed first, in list order, and an
  exception raised by the key function leaves the sort; the elements are then sorted by
  key, stably.
\<close>

fun sort_keys :: "('a \<Rightarrow> error + 'k) \<Rightarrow> 'a list \<Rightarrow> error + ('k \<times> 'a) list" where
  "sort_keys f [] = Inr []"
| "sort_keys f (x # xs) =
     (case f x of
        Inl e \<Rightarrow> Inl e
      | Inr k \<Rightarrow> (case sort_keys f xs of
                   Inl e \<Rightarrow> Inl e
                 | Inr kxs \<Rightarrow> Inr ((k, x) # kxs)))"

definition list_sort :: "('a \<Rightarrow> error + 'k::linorder) \<Rightarrow> 'a list \<Rightarrow> error + 'a list" where
  "list_sort f xs =
     (case sort_keys f xs of
        Inl e \<Rightarrow> Inl e
      | Inr kxs \<Rightarrow> Inr (map snd (sort_key fst kxs)))"

text \<open>
  \<open>AgentMesh.find_best_agent\<close>. The argument \<open>agents\<close> is the dict \<open>self._agents\<close> in
  insertion order; \<open>project_name\<close> and \<open>require_capability\<close> are \<open>str | None\<close>, and the
  tests \<open>if require_capability:\<close> and \<open>if project_name:\<close> are false for \<open>None\<close> and for
  the empty string.
\<close>

definition find_best_agent ::
  "rat \<Rightarrow> (string \<times> AgentInfo) list \<Rightarrow> string option \<Rightarrow> string option
     \<Rightarrow> error + AgentInfo option" where
  "find_best_agent now agents project_name require_capability =
     (let candidates = filter (\<lambda>a. is_alive now a \<and> available_slots a > 0) (map snd agents)
      in if candidates = [] then Inr None
         else
           let candidates =
                 (case require_capability of
                    None \<Rightarrow> candidates
                  | Some c \<Rightarrow>
                      if c = [] then candidates
                      else let cap_agents = filter (\<lambda>a. c \<in> capabilities a) candidates
                           in if cap_agents \<noteq> [] then cap_agents else candidates);
               candidates =
                 (case project_name of
                    None \<Rightarrow> candidates
                  | Some p \<Rightarrow>
                      if p = [] then candidates
                      else let project_agents =
                                 filter (\<lambda>a. p \<in> fst ` set (project_paths a)) candidates
                           in if project_agents \<noteq> [] then project_agents else candidates)
           in case list_sort load_ratio candidates of
                Inl e \<Rightarrow> Inl e
              | Inr ordered \<Rightarrow> Inr (if ordered \<noteq> [] then Some (hd ordered) else None))"


text \<open>
  The constructor call of the test helper \<open>_register_agent\<close> (tests/test\_agent\_mesh.py),
  with the dataclass defaults for the fields it leaves out.
\<close>

definition make_agent ::
  "string \<Rightarrow> string \<Rightarrow> string set \<Rightarrow> (string \<times> string) list \<Rightarrow> int \<Rightarrow> int \<Rightarrow> rat \<Rightarrow> rat
     \<Rightarrow> AgentInfo" where
  "make_agent aid host caps projects running maxc heartbeat conn_time =
     \<lparr>agent_id = aid, hostname = host, os_name = [], ws = None, capabilities = caps,
      project_paths = projects, running_tasks = running, max_concurrent = maxc,
      last_heartbeat = heartbeat, connected_at = conn_time\<rparr>"

text \<open>The float that \<open>load_ratio\<close> returns, when it returns one.\<close>

definition load :: "AgentInfo \<Rightarrow> rat" where
  "load a = (case load_ratio a of Inr ratio \<Rightarrow> ratio | Inl e \<Rightarrow> 0)"

subsection \<open>The registry state\<close>

text \<open>
  A result as the registry reads it: the fields \<open>success\<close> and \<open>output\<close> of a message
  dict, each possibly absent (\<open>dict.get\<close>).
\<close>

record reply =
  r_success :: "bool option"
  r_output :: "string option"

text \<open>A parsed message from a worker, by its \<open>type\<close>; every field may be absent.\<close>

datatype message =
    Hello "string option" "string option" "string list option"
          "(string \<times> string) list option" "int option"
  | Result "string option" reply
  | Pong
  | Status_update "int option" "(string \<times> string) list option"
  | Other

text \<open>\<open>msg.get(key, default)\<close> on a field that may be absent.\<close>

definition get_or :: "'a option \<Rightarrow> 'a \<Rightarrow> 'a" where
  "get_or field dflt = (case field of Some v \<Rightarrow> v | None \<Rightarrow> dflt)"

text \<open>A message the registry sends to a worker.\<close>

datatype outgoing =
    Run_command string string string int
  | Run_claude_code string string string bool int
  | Ping

text \<open>An \<open>asyncio.Future\<close>: not yet resolved, resolved with a result, or cancelled.\<close>

datatype future = Waiting | Done reply | Cancelled

fun is_done :: "future \<Rightarrow> bool" where
  "is_done Waiting = False"
| "is_done (Done r) = True"
| "is_done Cancelled = True"

record ExecutionResult =
  er_success :: bool
  er_output :: string

text \<open>
  The state of an \<open>AgentMesh\<close>. \<open>agents\<close> and \<open>pending\<close> are the dicts \<open>_agents\<close> and
  \<open>_pending\<close> in insertion order. Futures are objects that outlive their entry in
  \<open>_pending\<close> (the suspended caller holds them), so they live in a store \<open>futures\<close> and
  \<open>pending\<close> maps a task id to an address in it. An \<open>AgentInfo\<close> popped from \<open>_agents\<close>
  is still referenced by the callers suspended on it: \<open>detached\<close> keeps these objects,
  under their agent id. Every object in \<open>agents\<close> is stored under its own \<open>agent_id\<close>
  (a fresh uuid, lines 113--121).
\<close>

record AgentMesh =
  ws_secret :: string
  agents :: "(string \<times> AgentInfo) list"
  pending :: "(string \<times> nat) list"
  futures :: "future list"
  detached :: "(string \<times> AgentInfo) list"

definition new_mesh :: "string \<Rightarrow> AgentMesh" where
  "new_mesh secret =
     \<lparr>ws_secret = secret, agents = [], pending = [], futures = [], detached = []\<rparr>"

text \<open>The object behind a reference held by a suspended caller.\<close>

definition agent_obj :: "AgentMesh \<Rightarrow> string \<Rightarrow> AgentInfo option" where
  "agent_obj st aid =
     (case map_of (agents st) aid of
        Some a \<Rightarrow> Some a
      | None \<Rightarrow> map_of (detached st) aid)"

definition update_agent_obj :: "string \<Rightarrow> (AgentInfo \<Rightarrow> AgentInfo) \<Rightarrow> AgentMesh \<Rightarrow> AgentMesh" where
  "update_agent_obj aid f st =
     (case map_of (agents st) aid of
        Some a \<Rightarrow> st\<lparr>agents := AList.map_entry aid f (agents st)\<rparr>
      | None \<Rightarrow> st\<lparr>detached := AList.map_entry aid f (detached st)\<rparr>)"

text \<open>
  \<open>handle_agent_connection\<close> up to the receive loop. \<open>headers\<close> are the request headers
  (lower-case names), \<open>sock\<close> the websocket, \<open>new_id\<close> the value of \<open>uuid.uuid4()\<close>,
  \<open>t1\<close> and \<open>t2\<close> the two readings of the clock. The receive loop is a sequence of
  \<open>handle_message\<close> steps and its \<open>finally\<close> is \<open>cleanup_agent\<close>. The heartbeat task
  that the function starts is not part of the state.
\<close>

datatype connection = Closed int string | Accepted string

definition handle_agent_connection ::
  "AgentMesh \<Rightarrow> (string \<times> string) list \<Rightarrow> nat \<Rightarrow> string \<Rightarrow> rat \<Rightarrow> rat
     \<Rightarrow> AgentMesh \<times> connection" where
  "handle_agent_connection st headers sock new_id t1 t2 =
     (let auth = get_or (map_of headers ''authorization'') []
      in if auth \<noteq> ''Bearer '' @ ws_secret st then (st, Closed 4001 ''Unauthorized'')
         else
           let agent = \<lparr>agent_id = new_id, hostname = ''unknown'', os_name = [],
                        ws = Some sock, capabilities = {}, project_paths = [],
                        running_tasks = 0, max_concurrent = 3,
                        last_heartbeat = t1, connected_at = t2\<rparr>
           in (st\<lparr>agents := AList.update new_id agent (agents st)\<rparr>, Accepted new_id))"

text \<open>\<open>_cleanup_agent\<close>.\<close>

definition cleanup_agent :: "string \<Rightarrow> AgentMesh \<Rightarrow> AgentMesh" where
  "cleanup_agent aid st =
     (case map_of (agents st) aid of
        None \<Rightarrow> st
      | Some agent \<Rightarrow>
          let st = st\<lparr>agents := AList.delete aid (agents st),
                      detached := AList.update aid agent (detached st)\<rparr>;
              failure = \<lparr>r_success = Some False,
                         r_output = Some (''Agente '' @ hostname agent @ '' se desconecto.'')\<rparr>
          in st\<lparr>futures :=
                  fold (\<lambda>(task_id, fut) fs.
                          if \<not> is_done (fs ! fut) then fs[fut := Done failure] else fs)
                       (pending st) (futures st)\<rparr>)"

text \<open>\<open>_handle_message\<close>; \<open>now\<close> is the clock.\<close>

definition handle_message :: "string \<Rightarrow> message \<Rightarrow> rat \<Rightarrow> AgentMesh \<Rightarrow> AgentMesh" where
  "handle_message aid msg now st =
     (case map_of (agents st) aid of
        None \<Rightarrow> st
      | Some agent0 \<Rightarrow>
          let agent = agent0\<lparr>last_heartbeat := now\<rparr>
          in (case msg of
               Hello host os caps projects maxc \<Rightarrow>
                 st\<lparr>agents := AList.update aid
                       (agent\<lparr>hostname := get_or host ''unknown'',
                              os_name := get_or os [],
                              capabilities := set (get_or caps []),
                              project_paths := get_or projects [],
                              max_concurrent := get_or maxc 3\<rparr>)
                       (agents st)\<rparr>
             | Result task_id rep \<Rightarrow>
                 let agent = agent\<lparr>running_tasks := max 0 (running_tasks agent - 1)\<rparr>;
                     st = st\<lparr>agents := AList.update aid agent (agents st)\<rparr>
                 in (case task_id of
                       None \<Rightarrow> st
                     | Some t \<Rightarrow>
                         (case map_of (pending st) t of
                            None \<Rightarrow> st
                          | Some fut \<Rightarrow>
                              let st = st\<lparr>pending := AList.delete t (pending st)\<rparr>
                              in if \<not> is_done (futures st ! fut)
                                 then st\<lparr>futures := (futures st)[fut := Done rep]\<rparr>
                                 else st))
             | Pong \<Rightarrow> st\<lparr>agents := AList.update aid agent (agents st)\<rparr>
             | Status_update running projects \<Rightarrow>
                 st\<lparr>agents := AList.update aid
                       (agent\<lparr>running_tasks := get_or running (running_tasks agent),
                              project_paths := get_or projects (project_paths agent)\<rparr>)
                       (agents st)\<rparr>
             | Other \<Rightarrow> st\<lparr>agents := AList.update aid agent (agents st)\<rparr>))"


subsection \<open>Dispatching a request\<close>

text \<open>\<open>str(n)\<close> for an integer, as the f-strings print it.\<close>

fun str_nat :: "nat \<Rightarrow> string" where
  "str_nat n =
     (if n < 10 then [''0123456789'' ! n]
      else str_nat (n div 10) @ [''0123456789'' ! (n mod 10)])"

definition str_int :: "int \<Rightarrow> string" where
  "str_int i = (if i < 0 then CHR ''-'' # str_nat (nat (- i)) else str_nat (nat i))"

text \<open>
  \<open>run_command\<close> and \<open>run_claude_code\<close> are coroutines. Each is split at its suspension:
  the part up to the send (\<open>_dispatch\<close>), which runs without interruption, and the part
  after \<open>asyncio.wait_for\<close> (\<open>_wait\<close>). Between the two the caller is suspended and holds
  the chosen agent, the task id, the future and the timeout (\<open>waiter\<close>).
  \<open>task_id\<close> is the value of \<open>uuid.uuid4()\<close>; \<open>send_ok\<close> says whether \<open>send_text\<close>
  returned or raised.
\<close>

record waiter =
  w_agent :: string
  w_task :: string
  w_future :: nat
  w_timeout :: int

datatype dispatched = Raised error | No_agent ExecutionResult | Sent waiter outgoing

datatype completion = Still_waiting | Completed ExecutionResult | Wait_raised error

definition run_command_dispatch ::
  "AgentMesh \<Rightarrow> rat \<Rightarrow> string \<Rightarrow> bool \<Rightarrow> string \<Rightarrow> string \<Rightarrow> int \<Rightarrow> string option
     \<Rightarrow> AgentMesh \<times> dispatched" where
  "run_command_dispatch st now task_id send_ok command cwd timeout project_name =
     (let unavailable =
            \<lparr>er_success = False,
             er_output = ''No hay agente disponible''
               @ (case project_name of
                    None \<Rightarrow> []
                  | Some p \<Rightarrow> if p = [] then [] else '' con el proyecto '' @ [CHR 0x27] @ p @ [CHR 0x27])
               @ ''. Ejecuta el daemon en algun PC.''\<rparr>
      in case find_best_agent now (agents st) project_name None of
           Inl e \<Rightarrow> (st, Raised e)
         | Inr None \<Rightarrow> (st, No_agent unavailable)
         | Inr (Some agent) \<Rightarrow>
             if ws agent = None then (st, No_agent unavailable)
             else
               let cwd = (case project_name of
                            None \<Rightarrow> cwd
                          | Some p \<Rightarrow> if p = [] then cwd
                                       else get_or (map_of (project_paths agent) p) cwd);
                   fut = length (futures st);
                   st = st\<lparr>futures := futures st @ [Waiting],
                           pending := AList.update task_id fut (pending st)\<rparr>;
                   st = update_agent_obj (agent_id agent)
                          (\<lambda>a. a\<lparr>running_tasks := running_tasks a + 1\<rparr>) st
               in if \<not> send_ok then (st, Raised SendError)
                  else (st, Sent \<lparr>w_agent = agent_id agent, w_task = task_id,
                                   w_future = fut, w_timeout = timeout\<rparr>
                                 (Run_command task_id command cwd timeout)))"

text \<open>
  After \<open>wait_for(fut, timeout + 10)\<close>: \<open>timed_out\<close> says whether the deadline has
  passed. A resolved future gives its result; at the deadline \<open>wait_for\<close> cancels an
  unresolved future and raises \<open>TimeoutError\<close>.
\<close>

definition run_command_wait :: "AgentMesh \<Rightarrow> waiter \<Rightarrow> bool \<Rightarrow> AgentMesh \<times> completion" where
  "run_command_wait st w timed_out =
     (let host = (case agent_obj st (w_agent w) of Some a \<Rightarrow> hostname a | None \<Rightarrow> [])
      in case futures st ! w_future w of
           Done result \<Rightarrow>
             (st, Completed \<lparr>er_success = get_or (r_success result) False,
                             er_output = ''['' @ host @ ''] '' @ get_or (r_output result) []\<rparr>)
         | Cancelled \<Rightarrow> (st, Wait_raised CancelledError)
         | Waiting \<Rightarrow>
             if \<not> timed_out then (st, Still_waiting)
             else
               let st = st\<lparr>futures := (futures st)[w_future w := Cancelled]\<rparr>;
                   st = st\<lparr>pending := AList.delete (w_task w) (pending st)\<rparr>;
                   st = update_agent_obj (w_agent w)
                          (\<lambda>a. a\<lparr>running_tasks := max 0 (running_tasks a - 1)\<rparr>) st
               in (st, Completed \<lparr>er_success = False,
                                  er_output = ''Timeout ('' @ str_int (w_timeout w)
                                    @ ''s) en agente '' @ host @ ''.''\<rparr>))"

definition run_claude_code_dispatch ::
  "AgentMesh \<Rightarrow> rat \<Rightarrow> string \<Rightarrow> bool \<Rightarrow> string \<Rightarrow> string \<Rightarrow> bool \<Rightarrow> int \<Rightarrow> string option
     \<Rightarrow> AgentMesh \<times> dispatched" where
  "run_claude_code_dispatch st now task_id send_ok prompt cwd read_only timeout project_name =
     (let unavailable =
            \<lparr>er_success = False, er_output = ''No hay agente con Claude Code disponible.''\<rparr>
      in case find_best_agent now (agents st) project_name (Some ''claude_code'') of
           Inl e \<Rightarrow> (st, Raised e)
         | Inr None \<Rightarrow> (st, No_agent unavailable)
         | Inr (Some agent) \<Rightarrow>
             if ws agent = None then (st, No_agent unavailable)
             else
               let cwd = (case project_name of
                            None \<Rightarrow> cwd
                          | Some p \<Rightarrow> if p = [] then cwd
                                       else get_or (map_of (project_paths agent) p) cwd);
                   fut = length (futures st);
                   st = st\<lparr>futures := futures st @ [Waiting],
                           pending := AList.update task_id fut (pending st)\<rparr>;
                   st = update_agent_obj (agent_id agent)
                          (\<lambda>a. a\<lparr>running_tasks := running_tasks a + 1\<rparr>) st
               in if \<not> send_ok then (st, Raised SendError)
                  else (st, Sent \<lparr>w_agent = agent_id agent, w_task = task_id,
                                   w_future = fut, w_timeout = timeout\<rparr>
                                 (Run_claude_code task_id prompt cwd read_only timeout)))"

definition run_claude_code_wait :: "AgentMesh \<Rightarrow> waiter \<Rightarrow> bool \<Rightarrow> AgentMesh \<times> completion" where
  "run_claude_code_wait st w timed_out =
     (let host = (case agent_obj st (w_agent w) of Some a \<Rightarrow> hostname a | None \<Rightarrow> [])
      in case futures st ! w_future w of
           Done result \<Rightarrow>
             (st, Completed \<lparr>er_success = get_or (r_success result) False,
                             er_output = ''['' @ host @ ''] '' @ get_or (r_output result) []\<rparr>)
         | Cancelled \<Rightarrow> (st, Wait_raised CancelledError)
         | Waiting \<Rightarrow>
             if \<not> timed_out then (st, Still_waiting)
             else
               let st = st\<lparr>futures := (futures st)[w_future w := Cancelled]\<rparr>;
                   st = st\<lparr>pending := AList.delete (w_task w) (pending st)\<rparr>;
                   st = update_agent_obj (w_agent w)
                          (\<lambda>a. a\<lparr>running_tasks := max 0 (running_tasks a - 1)\<rparr>) st
               in (st, Completed \<lparr>er_success = False,
                                  er_output = ''Timeout ('' @ str_int (w_timeout w)
                                    @ ''s) de Claude Code en '' @ host @ ''.''\<rparr>))"

section \<open>Process supervisor (src/local\_agent/process\_manager.py)\<close>

text \<open>
  What the operating system does with the command is an input of the model: the spawn
  raises \<open>FileNotFoundError\<close> or another exception (with its text), the wait exceeds the
  timeout, the wait raises another exception, or the process exits with a return code
  and its decoded output (\<open>""\<close> when it printed nothing). \<open>active\<close> is the dict
  \<open>_active\<close> from task id to process handle; \<open>proc\<close> is the handle of the spawned
  process. The working directory and the environment only reach the operating system.
\<close>

datatype process_event =
    File_not_found
  | Spawn_error string
  | Wait_timeout
  | Wait_error string
  | Exited int string

record ProcessResult =
  p_success :: bool
  p_output :: string
  p_exit_code :: "int option"

definition max_output :: nat where
  "max_output = 50000"

definition truncation_marker :: string where
  "truncation_marker = [CHR 0x0A, CHR 0x0A] @ ''... (output truncado)''"

definition run ::
  "(string \<times> nat) list \<Rightarrow> string \<Rightarrow> int \<Rightarrow> string \<Rightarrow> nat \<Rightarrow> process_event
     \<Rightarrow> (string \<times> nat) list \<times> ProcessResult" where
  "run active command timeout task_id proc ev =
     (case ev of
        File_not_found \<Rightarrow>
          (active, \<lparr>p_success = False,
                    p_output = ''Comando no encontrado: '' @ command,
                    p_exit_code = Some (- 1)\<rparr>)
      | Spawn_error e \<Rightarrow>
          (active, \<lparr>p_success = False,
                    p_output = ''Error ejecutando comando: '' @ e,
                    p_exit_code = Some (- 1)\<rparr>)
      | Wait_error e \<Rightarrow>
          (AList.update task_id proc active,
           \<lparr>p_success = False,
            p_output = ''Error ejecutando comando: '' @ e,
            p_exit_code = Some (- 1)\<rparr>)
      | Wait_timeout \<Rightarrow>
          (AList.delete task_id active,
           \<lparr>p_success = False,
            p_output = ''Timeout ('' @ str_int timeout @ ''s) ejecutando: '' @ command,
            p_exit_code = Some (- 1)\<rparr>)
      | Exited returncode stdout \<Rightarrow>
          let output = stdout;
              output = (if length output > max_output
                        then take max_output output @ truncation_marker
                        else output)
          in (AList.delete task_id active,
              \<lparr>p_success = (returncode = 0),
               p_output = output,
               p_exit_code = Some returncode\<rparr>))"

section \<open>Worker daemon: the reconnect loop (src/local\_agent/daemon.py)\<close>

definition RECONNECT_DELAY :: int where
  "RECONNECT_DELAY = 5"

definition MAX_RECONNECT_DELAY :: int where
  "MAX_RECONNECT_DELAY = 60"

text \<open>
  One pass of the \<open>while self._running\<close> loop of \<open>LocalAgentDaemon.start\<close>. The
  attempt fails to open the connection (\<open>Connect_failed\<close>: the \<open>with\<close> block is never
  entered), or opens it and fails to send the \<open>hello\<close> (\<open>Hello_failed\<close>), or opens it,
  registers with the \<open>hello\<close> and loses the link later (\<open>Registered\<close>). Entering the
  block resets \<open>delay\<close>, before the \<open>hello\<close> is sent. \<open>running\<close> is the flag
  \<open>self._running\<close> as read after the attempt. The result is the time slept, if any, and
  the new \<open>delay\<close>.
\<close>

datatype attempt = Connect_failed | Hello_failed | Registered

definition start_pass :: "attempt \<Rightarrow> bool \<Rightarrow> int \<Rightarrow> int option \<times> int" where
  "start_pass att running delay =
     (let delay = (case att of
                     Connect_failed \<Rightarrow> delay
                   | Hello_failed \<Rightarrow> RECONNECT_DELAY
                   | Registered \<Rightarrow> RECONNECT_DELAY)
      in if running then (Some delay, min (delay * 2) MAX_RECONNECT_DELAY)
         else (None, delay))"

text \<open>
  The loop over a finite history of attempts, each with the flag read after it; it
  returns the sleeps in order. The loop is left when the flag is false.
\<close>

fun start_loop :: "(attempt \<times> bool) list \<Rightarrow> int \<Rightarrow> int list" where
  "start_loop [] delay = []"
| "start_loop ((att, running) # rest) delay =
     (case start_pass att running delay of
        (None, d) \<Rightarrow> []
      | (Some slept, d) \<Rightarrow> slept # start_loop rest d)"

text \<open>\<open>start\<close>: the loop entered with \<open>delay = RECONNECT_DELAY\<close>.\<close>

definition start :: "(attempt \<times> bool) list \<Rightarrow> int list" where
  "start history = start_loop history RECONNECT_DELAY"

section \<open>Auxiliary facts\<close>

lemma floor_rat_divide_numeral:
  "\<lfloor>numeral a / numeral b :: rat\<rfloor> = numeral a div numeral b"
  by (metis floor_divide_of_int_eq of_int_numeral)

lemma floor_rat_minus_divide_numeral:
  "\<lfloor>- (numeral a / numeral b) :: rat\<rfloor> = - numeral a div numeral b"
  by (metis divide_minus_left floor_divide_of_int_eq of_int_neg_numeral of_int_numeral)

lemmas float_eval = truediv_def float_of_fraction_def round_half_even_def bit_length.simps
  power_int_def Let_def power_one_over floor_rat_divide_numeral floor_rat_minus_divide_numeral

lemma float_of_fraction_cases:
  "float_of_fraction n d = Inl OverflowError \<or> (\<exists>x. float_of_fraction n d = Inr x)"
  by (simp add: float_of_fraction_def Let_def)

lemma float_of_fraction_overflow:
  "float_of_fraction n d = Inl OverflowError
     \<Longrightarrow> (2 ^ 54 - 1) * 2 ^ 970 \<le> \<bar>of_int n / of_int d :: rat\<bar>"
  by (simp add: float_of_fraction_def Let_def split: if_splits)

lemma overflow_threshold: "(2::rat) ^ 1023 \<le> (2 ^ 54 - 1) * 2 ^ 970"
proof -
  have "(2::rat) ^ 1023 = 2 ^ 53 * 2 ^ 970" by (simp only: power_add [symmetric]) simp
  also have "\<dots> \<le> (2 ^ 54 - 1) * 2 ^ 970"
    by (intro mult_right_mono) simp_all
  finally show ?thesis .
qed

lemma float_of_fraction_in_range:
  assumes "d \<noteq> 0" and "\<bar>n\<bar> < 2 ^ 1023"
  shows "\<exists>x. float_of_fraction n d = Inr x"
proof -
  define q :: rat where "q = of_int n / of_int d"
  define bound :: rat where "bound = (2 ^ 54 - 1) * 2 ^ 970"
  have "1 \<le> \<bar>d\<bar>" using assms(1) by linarith
  then have "(1::rat) \<le> of_int \<bar>d\<bar>" by (simp only: of_int_1_le_iff)
  then have d1: "(1::rat) \<le> \<bar>of_int d\<bar>" by simp
  have "\<bar>q\<bar> = \<bar>of_int n\<bar> / \<bar>of_int d\<bar>" unfolding q_def by simp
  also have "\<dots> \<le> \<bar>of_int n\<bar> / 1"
    using d1 by (intro divide_left_mono) simp_all
  finally have le: "\<bar>q\<bar> \<le> \<bar>of_int n\<bar>" by simp
  have "(of_int \<bar>n\<bar> :: rat) < of_int (2 ^ 1023)"
    using assms(2) by (simp only: of_int_less_iff)
  then have "\<bar>of_int n :: rat\<bar> < 2 ^ 1023" by simp
  with le have "\<bar>q\<bar> < 2 ^ 1023" by (rule le_less_trans)
  then have "\<bar>q\<bar> < bound"
    unfolding bound_def using overflow_threshold by (rule less_le_trans)
  then have nov: "\<not> bound \<le> \<bar>q\<bar>" by (simp only: not_le)
  show ?thesis
  proof (rule ccontr)
    assume "\<not> (\<exists>x. float_of_fraction n d = Inr x)"
    with float_of_fraction_cases [of n d] have "float_of_fraction n d = Inl OverflowError"
      by blast
    then have "(2 ^ 54 - 1) * 2 ^ 970 \<le> \<bar>of_int n / of_int d :: rat\<bar>"
      by (rule float_of_fraction_overflow)
    with nov [unfolded bound_def q_def] show False by blast
  qed
qed

lemma load_ratio_cases:
  "load_ratio a = Inl OverflowError \<or> load_ratio a = Inr (load a)"
  using float_of_fraction_cases [of "running_tasks a" "max_concurrent a"]
  by (auto simp: load_def load_ratio_def truediv_def)

lemma load_ratio_Inr: "load_ratio a \<noteq> Inl OverflowError \<Longrightarrow> load_ratio a = Inr (load a)"
  using load_ratio_cases [of a] by blast

lemma load_ratio_in_range:
  assumes "\<bar>running_tasks a\<bar> < 2 ^ 1023"
  shows "load_ratio a = Inr (load a)"
proof (cases "max_concurrent a = 0")
  case True
  then show ?thesis by (simp add: load_def load_ratio_def)
next
  case False
  from float_of_fraction_in_range [OF False assms] show ?thesis
    by (auto simp: load_def load_ratio_def truediv_def False)
qed

lemma sort_keys_total:
  "\<forall>x\<in>set xs. f x = Inr (g x) \<Longrightarrow> sort_keys f xs = Inr (map (\<lambda>x. (g x, x)) xs)"
  by (induction xs) simp_all

lemma insort_key_decorated:
  "insort_key fst (g x, x) (map (\<lambda>y. (g y, y)) ys) = map (\<lambda>y. (g y, y)) (insort_key g x ys)"
  by (induction ys) simp_all

lemma sort_key_decorated:
  "sort_key fst (map (\<lambda>y. (g y, y)) xs) = map (\<lambda>y. (g y, y)) (sort_key g xs)"
  by (induction xs) (simp_all add: insort_key_decorated)

lemma list_sort_total:
  assumes "\<forall>x\<in>set xs. f x = Inr (g x)"
  shows "list_sort f xs = Inr (sort_key g xs)"
  using sort_keys_total [OF assms]
  by (simp add: list_sort_def sort_key_decorated comp_def)

lemma hd_insort_key:
  "hd (insort_key g x ys) = (if ys = [] \<or> g x \<le> g (hd ys) then x else hd ys)"
  by (cases ys) simp_all

lemma hd_sort_key_first_min:
  "xs \<noteq> [] \<Longrightarrow>
     \<exists>pre post. xs = pre @ hd (sort_key g xs) # post
       \<and> (\<forall>y\<in>set pre. g (hd (sort_key g xs)) < g y)
       \<and> (\<forall>y\<in>set post. g (hd (sort_key g xs)) \<le> g y)"
proof (induction xs)
  case Nil
  then show ?case by simp
next
  case (Cons x xs)
  show ?case
  proof (cases "xs = []")
    case True
    then show ?thesis by (intro exI [of _ "[]"]) simp
  next
    case False
    let ?h = "hd (sort_key g xs)"
    from Cons.IH [OF False] obtain pre post where
      dec: "xs = pre @ ?h # post" and
      pre: "\<forall>y\<in>set pre. g ?h < g y" and
      post: "\<forall>y\<in>set post. g ?h \<le> g y"
      by blast
    have ne: "sort_key g xs \<noteq> []" using False by (metis length_sort length_0_conv)
    have all: "\<forall>y\<in>set xs. g ?h \<le> g y"
    proof
      fix y assume "y \<in> set xs"
      then have "y \<in> set pre \<or> y = ?h \<or> y \<in> set post"
        by (subst (asm) dec) auto
      then show "g ?h \<le> g y" using pre post by auto
    qed
    show ?thesis
    proof (cases "g x \<le> g ?h")
      case True
      then have h: "hd (sort_key g (x # xs)) = x" using ne by (simp add: hd_insort_key)
      have "\<forall>y\<in>set xs. g x \<le> g y" using all True by auto
      then show ?thesis unfolding h by (intro exI [of _ "[]"] exI [of _ xs]) simp
    next
      case False
      then have h: "hd (sort_key g (x # xs)) = ?h" using ne by (simp add: hd_insort_key)
      have "x # xs = (x # pre) @ ?h # post" using dec by simp
      moreover have "\<forall>y\<in>set (x # pre). g ?h < g y" using pre False by auto
      ultimately show ?thesis unfolding h using post by blast
    qed
  qed
qed

lemma sort_keys_error:
  "sort_keys f xs = Inl e \<Longrightarrow> \<exists>x\<in>set xs. f x = Inl e"
  by (induction xs) (auto split: sum.splits)

lemma list_sort_error:
  "list_sort f xs = Inl e \<Longrightarrow> \<exists>x\<in>set xs. f x = Inl e"
  using sort_keys_error [of f xs e] by (auto simp: list_sort_def split: sum.splits)

lemma list_sort_load_ratio:
  "\<forall>a\<in>set xs. load_ratio a \<noteq> Inl OverflowError
     \<Longrightarrow> list_sort load_ratio xs = Inr (sort_key load xs)"
  by (rule list_sort_total) (simp add: load_ratio_Inr)

lemma hd_sort_key_mem: "xs \<noteq> [] \<Longrightarrow> hd (sort_key g xs) \<in> set xs"
  by (metis hd_in_set length_0_conv length_sort set_sort)

lemma sort_key_Nil_iff: "sort_key g xs = [] \<longleftrightarrow> xs = []"
  by (metis length_0_conv length_sort)

lemma find_best_agent_empty:
  "filter (\<lambda>a. is_alive now a \<and> 0 < available_slots a) (map snd tbl) = []
     \<Longrightarrow> find_best_agent now tbl p c = Inr None"
  by (simp add: find_best_agent_def)

lemma find_best_agent_pool:
  assumes "filter (\<lambda>a. is_alive now a \<and> 0 < available_slots a) (map snd tbl) \<noteq> []"
  shows "\<exists>pool. pool \<noteq> []
           \<and> set pool \<subseteq> {a \<in> snd ` set tbl. is_alive now a \<and> 0 < available_slots a}
           \<and> (\<forall>t. c = Some t \<and> t \<noteq> []
                  \<and> (\<exists>a\<in>snd ` set tbl. is_alive now a \<and> 0 < available_slots a
                                          \<and> t \<in> capabilities a)
                 \<longrightarrow> (\<forall>a\<in>set pool. t \<in> capabilities a))
           \<and> find_best_agent now tbl p c =
               (case list_sort load_ratio pool of
                  Inl e \<Rightarrow> Inl e
                | Inr ordered \<Rightarrow> Inr (if ordered \<noteq> [] then Some (hd ordered) else None))"
proof -
  let ?cands = "filter (\<lambda>a. is_alive now a \<and> 0 < available_slots a) (map snd tbl)"
  define c1 where "c1 =
     (case c of None \<Rightarrow> ?cands
      | Some t \<Rightarrow> if t = [] then ?cands
                  else let cap_agents = filter (\<lambda>a. t \<in> capabilities a) ?cands
                       in if cap_agents \<noteq> [] then cap_agents else ?cands)"
  define c2 where "c2 =
     (case p of None \<Rightarrow> c1
      | Some n \<Rightarrow> if n = [] then c1
                  else let project_agents = filter (\<lambda>a. n \<in> fst ` set (project_paths a)) c1
                       in if project_agents \<noteq> [] then project_agents else c1)"
  have c1: "c1 \<noteq> [] \<and> set c1 \<subseteq> set ?cands"
    using assms unfolding c1_def by (auto simp: Let_def split: option.splits)
  have c2: "c2 \<noteq> [] \<and> set c2 \<subseteq> set c1"
    using c1 unfolding c2_def by (auto simp: Let_def split: option.splits)
  have cap: "\<forall>a\<in>set c1. t \<in> capabilities a"
    if "c = Some t" "t \<noteq> []"
       "\<exists>a\<in>snd ` set tbl. is_alive now a \<and> 0 < available_slots a \<and> t \<in> capabilities a"
    for t
  proof -
    from that(3) have "filter (\<lambda>a. t \<in> capabilities a) ?cands \<noteq> []"
      by (auto simp: filter_empty_conv)
    then show ?thesis using that(1,2) unfolding c1_def by (simp add: Let_def)
  qed
  have "find_best_agent now tbl p c =
          (case list_sort load_ratio c2 of
             Inl e \<Rightarrow> Inl e
           | Inr ordered \<Rightarrow> Inr (if ordered \<noteq> [] then Some (hd ordered) else None))"
    using assms unfolding find_best_agent_def c2_def c1_def by (simp add: Let_def)
  moreover have "set c2 \<subseteq> {a \<in> snd ` set tbl. is_alive now a \<and> 0 < available_slots a}"
    using c1 c2 by auto
  moreover have "\<forall>t. c = Some t \<and> t \<noteq> []
                  \<and> (\<exists>a\<in>snd ` set tbl. is_alive now a \<and> 0 < available_slots a
                                          \<and> t \<in> capabilities a)
                 \<longrightarrow> (\<forall>a\<in>set c2. t \<in> capabilities a)"
    using cap c2 by blast
  ultimately show ?thesis using c2 by blast
qed

lemma find_best_agent_error:
  assumes "find_best_agent now tbl p c = Inl e"
  shows "e = OverflowError"
proof (cases "filter (\<lambda>a. is_alive now a \<and> 0 < available_slots a) (map snd tbl) = []")
  case True
  then show ?thesis using assms by (simp add: find_best_agent_empty)
next
  case False
  from find_best_agent_pool [OF False, of c p] obtain pool where
    "find_best_agent now tbl p c =
       (case list_sort load_ratio pool of
          Inl e \<Rightarrow> Inl e
        | Inr ordered \<Rightarrow> Inr (if ordered \<noteq> [] then Some (hd ordered) else None))"
    by blast
  with assms have "list_sort load_ratio pool = Inl e"
    by (auto split: sum.splits)
  then obtain a where "load_ratio a = Inl e" using list_sort_error by fastforce
  then show ?thesis using load_ratio_cases [of a] by auto
qed

lemma find_best_agent_in_range:
  assumes "filter (\<lambda>a. is_alive now a \<and> 0 < available_slots a) (map snd tbl) \<noteq> []"
    and "\<forall>a\<in>snd ` set tbl. is_alive now a \<and> 0 < available_slots a
           \<longrightarrow> load_ratio a \<noteq> Inl OverflowError"
  shows "\<exists>pool. pool \<noteq> []
           \<and> set pool \<subseteq> {a \<in> snd ` set tbl. is_alive now a \<and> 0 < available_slots a}
           \<and> (\<forall>t. c = Some t \<and> t \<noteq> []
                  \<and> (\<exists>a\<in>snd ` set tbl. is_alive now a \<and> 0 < available_slots a
                                          \<and> t \<in> capabilities a)
                 \<longrightarrow> (\<forall>a\<in>set pool. t \<in> capabilities a))
           \<and> find_best_agent now tbl p c = Inr (Some (hd (sort_key load pool)))"
proof -
  from find_best_agent_pool [OF assms(1), of c p] obtain pool where
    pool: "pool \<noteq> []"
      "set pool \<subseteq> {a \<in> snd ` set tbl. is_alive now a \<and> 0 < available_slots a}"
      "\<forall>t. c = Some t \<and> t \<noteq> []
                  \<and> (\<exists>a\<in>snd ` set tbl. is_alive now a \<and> 0 < available_slots a
                                          \<and> t \<in> capabilities a)
                 \<longrightarrow> (\<forall>a\<in>set pool. t \<in> capabilities a)"
      "find_best_agent now tbl p c =
        (case list_sort load_ratio pool of
           Inl e \<Rightarrow> Inl e
         | Inr ordered \<Rightarrow> Inr (if ordered \<noteq> [] then Some (hd ordered) else None))"
    by blast
  have "\<forall>a\<in>set pool. load_ratio a \<noteq> Inl OverflowError"
    using pool(2) assms(2) by blast
  then have "list_sort load_ratio pool = Inr (sort_key load pool)"
    by (rule list_sort_load_ratio)
  then have "find_best_agent now tbl p c = Inr (Some (hd (sort_key load pool)))"
    using pool(1,4) by (simp add: sort_key_Nil_iff)
  then show ?thesis using pool(1,2,3) by blast
qed

lemma find_best_agent_unfiltered:
  assumes "\<forall>a\<in>snd ` set tbl. is_alive now a \<and> 0 < available_slots a
             \<longrightarrow> load_ratio a \<noteq> Inl OverflowError"
  shows "find_best_agent now tbl None None =
     Inr (let candidates = filter (\<lambda>a. is_alive now a \<and> 0 < available_slots a) (map snd tbl)
          in if candidates = [] then None else Some (hd (sort_key load candidates)))"
proof -
  have "\<forall>a\<in>set (filter (\<lambda>a. is_alive now a \<and> 0 < available_slots a) (map snd tbl)).
          load_ratio a \<noteq> Inl OverflowError"
    using assms by auto
  then have "list_sort load_ratio
               (filter (\<lambda>a. is_alive now a \<and> 0 < available_slots a) (map snd tbl))
             = Inr (sort_key load
                 (filter (\<lambda>a. is_alive now a \<and> 0 < available_slots a) (map snd tbl)))"
    by (rule list_sort_load_ratio)
  then show ?thesis
    by (simp add: find_best_agent_def Let_def sort_key_Nil_iff)
qed

lemma find_best_agent_project:
  assumes "p \<noteq> []"
    and "filter (\<lambda>a. p \<in> fst ` set (project_paths a))
           (filter (\<lambda>a. is_alive now a \<and> 0 < available_slots a) (map snd tbl)) \<noteq> []"
    and "\<forall>a\<in>snd ` set tbl. is_alive now a \<and> 0 < available_slots a
           \<longrightarrow> load_ratio a \<noteq> Inl OverflowError"
  shows "find_best_agent now tbl (Some p) None =
     Inr (Some (hd (sort_key load
        (filter (\<lambda>a. p \<in> fst ` set (project_paths a))
           (filter (\<lambda>a. is_alive now a \<and> 0 < available_slots a) (map snd tbl))))))"
proof -
  let ?pool = "filter (\<lambda>a. p \<in> fst ` set (project_paths a))
           (filter (\<lambda>a. is_alive now a \<and> 0 < available_slots a) (map snd tbl))"
  have ne: "filter (\<lambda>a. is_alive now a \<and> 0 < available_slots a) (map snd tbl) \<noteq> []"
    using assms(2) by (auto simp: filter_empty_conv)
  have "\<forall>a\<in>set ?pool. load_ratio a \<noteq> Inl OverflowError"
    using assms(3) by auto
  then have srt: "list_sort load_ratio ?pool = Inr (sort_key load ?pool)"
    by (rule list_sort_load_ratio)
  have fb: "find_best_agent now tbl (Some p) None =
          (case list_sort load_ratio ?pool of
             Inl e \<Rightarrow> Inl e
           | Inr ordered \<Rightarrow> Inr (if ordered \<noteq> [] then Some (hd ordered) else None))"
    using ne assms(1,2) unfolding find_best_agent_def by (simp add: Let_def)
  have ne2: "sort_key load ?pool \<noteq> []"
    using assms(2) sort_key_Nil_iff [of load ?pool] by blast
  show ?thesis
    unfolding fb srt using ne2 by (simp only: sum.case if_True simp_thms)
qed

lemma backoff_double:
  assumes "0 < d" and "d \<le> 60"
  shows "min (min (d * 2) 60 * 2 ^ k) (60::int) = min (d * 2 ^ Suc k) 60"
proof -
  have p: "(1::int) \<le> 2 ^ k" by simp
  show ?thesis
  proof (cases "d * 2 \<le> 60")
    case True
    then show ?thesis by (simp add: mult.assoc)
  next
    case False
    then have m: "min (d * 2) 60 = 60" by simp
    have a: "(60::int) \<le> 60 * 2 ^ k"
      using mult_left_mono [OF p, of 60] by simp
    have b: "d * 2 \<le> d * 2 ^ Suc k"
      using mult_left_mono [OF p, of "d * 2"] assms(1) by (simp add: mult.assoc)
    have "min (60 * 2 ^ k) (60::int) = 60" using a by simp
    moreover have "60 \<le> d * 2 ^ Suc k" using b False by linarith
    then have "min (d * 2 ^ Suc k) 60 = 60" by (rule min_absorb2)
    ultimately show ?thesis unfolding m by simp
  qed
qed

lemma start_loop_failures:
  "0 < d \<Longrightarrow> d \<le> 60 \<Longrightarrow>
     start_loop (replicate n (Connect_failed, True)) d
       = map (\<lambda>k. min (d * 2 ^ k) 60) [0..<n]"
proof (induction n arbitrary: d)
  case 0
  then show ?case by simp
next
  case (Suc n)
  have d': "0 < min (d * 2) 60" "min (d * 2) 60 \<le> 60" using Suc.prems by simp_all
  have "start_loop (replicate (Suc n) (Connect_failed, True)) d
          = d # start_loop (replicate n (Connect_failed, True)) (min (d * 2) 60)"
    by (simp add: start_pass_def MAX_RECONNECT_DELAY_def)
  also have "\<dots> = d # map (\<lambda>k. min (min (d * 2) 60 * 2 ^ k) 60) [0..<n]"
    using Suc.IH [OF d'] by simp
  also have "\<dots> = d # map (\<lambda>k. min (d * 2 ^ Suc k) 60) [0..<n]"
    using Suc.prems by (simp only: backoff_double)
  also have "\<dots> = map (\<lambda>k. min (d * 2 ^ k) 60) (0 # map Suc [0..<n])"
    using Suc.prems by (simp add: comp_def)
  also have "0 # map Suc [0..<n] = [0..<Suc n]"
    by (simp only: map_Suc_upt upt_conv_Cons [of 0 "Suc n"] zero_less_Suc)
  finally show ?case .
qed

lemma start_loop_bounds:
  "5 \<le> d \<Longrightarrow> d \<le> 60 \<Longrightarrow> \<forall>s\<in>set (start_loop history d). 5 \<le> s \<and> s \<le> 60"
proof (induction history arbitrary: d)
  case Nil
  then show ?case by simp
next
  case (Cons step history)
  obtain att running where step: "step = (att, running)" by (cases step)
  show ?case
  proof (cases running)
    case False
    then show ?thesis by (simp add: step start_pass_def)
  next
    case True
    show ?thesis
    proof (cases att)
      case Connect_failed
      have "5 \<le> min (d * 2) 60" "min (d * 2) 60 \<le> 60" using Cons.prems by simp_all
      from Cons.IH [OF this] Cons.prems show ?thesis
        by (simp add: step True Connect_failed start_pass_def MAX_RECONNECT_DELAY_def)
    next
      case Hello_failed
      have "(5::int) \<le> 10" "(10::int) \<le> 60" by simp_all
      from Cons.IH [OF this] show ?thesis
        by (simp add: step True Hello_failed start_pass_def MAX_RECONNECT_DELAY_def
              RECONNECT_DELAY_def)
    next
      case Registered
      have "(5::int) \<le> 10" "(10::int) \<le> 60" by simp_all
      from Cons.IH [OF this] show ?thesis
        by (simp add: step True Registered start_pass_def MAX_RECONNECT_DELAY_def
              RECONNECT_DELAY_def)
    qed
  qed
qed

section \<open>Properties of the code\<close>

subsection \<open>The load ratio\<close>

text \<open>
  Counterexample to C10 as stated: \<open>load_ratio\<close> is not total. A worker's
  \<open>status_update\<close> is stored as it is (line 196); with \<open>running_tasks = -10 ^ 400\<close> and
  \<open>max_concurrent = 1\<close> the quotient is too large for a float, \<open>load_ratio\<close> raises
  \<open>OverflowError\<close>, and so does the sort in \<open>find_best_agent\<close>, for which this agent is
  a candidate.
\<close>

theorem load_ratio_overflow_counterexample:
  "load_ratio (make_agent ''a1'' ''pc1'' {} [] (- (10 ^ 400)) 1 100 0) = Inl OverflowError
   \<and> is_alive 100 (make_agent ''a1'' ''pc1'' {} [] (- (10 ^ 400)) 1 100 0)
   \<and> 0 < available_slots (make_agent ''a1'' ''pc1'' {} [] (- (10 ^ 400)) 1 100 0)
   \<and> find_best_agent 100 [(''a1'', make_agent ''a1'' ''pc1'' {} [] (- (10 ^ 400)) 1 100 0)]
         None None = Inl OverflowError"
  by (simp add: find_best_agent_def is_alive_def float_sub_def available_slots_def
        HEARTBEAT_TIMEOUT_def make_agent_def list_sort_def load_ratio_def truediv_def
        float_of_fraction_def)

text \<open>
  C10, amended. \<open>AgentInfo.load_ratio\<close> never divides by zero: it returns 1 when
  \<open>max_concurrent\<close> is 0, and otherwise the float \<open>running_tasks / max_concurrent\<close>,
  which exists whenever \<open>\<bar>running_tasks\<bar> < 2 ^ 1023\<close>. Consequently the sort in
  \<open>find_best_agent\<close> never raises \<open>ZeroDivisionError\<close>, also when a worker advertises
  \<open>max_concurrent = 0\<close>, and raises nothing when every agent has
  \<open>\<bar>running_tasks\<bar> < 2 ^ 1023\<close>.
\<close>

theorem load_ratio_no_zero_division:
  "(max_concurrent a = 0 \<longrightarrow> load_ratio a = Inr 1)
   \<and> (max_concurrent a \<noteq> 0 \<longrightarrow>
        load_ratio a = float_of_fraction (running_tasks a) (max_concurrent a))
   \<and> load_ratio a \<noteq> Inl ZeroDivisionError
   \<and> (\<bar>running_tasks a\<bar> < 2 ^ 1023 \<longrightarrow> (\<exists>ratio. load_ratio a = Inr ratio))
   \<and> find_best_agent now tbl p c \<noteq> Inl ZeroDivisionError
   \<and> ((\<forall>x\<in>snd ` set tbl. \<bar>running_tasks x\<bar> < 2 ^ 1023)
        \<longrightarrow> (\<exists>r. find_best_agent now tbl p c = Inr r))"
proof (intro conjI impI)
  show "load_ratio a = Inr 1" if "max_concurrent a = 0"
    using that by (simp add: load_ratio_def)
  show "load_ratio a = float_of_fraction (running_tasks a) (max_concurrent a)"
    if "max_concurrent a \<noteq> 0"
    using that by (simp add: load_ratio_def truediv_def)
  show "load_ratio a \<noteq> Inl ZeroDivisionError"
    using load_ratio_cases [of a] by auto
  show "\<exists>ratio. load_ratio a = Inr ratio" if "\<bar>running_tasks a\<bar> < 2 ^ 1023"
    using load_ratio_in_range [OF that] by blast
  show "find_best_agent now tbl p c \<noteq> Inl ZeroDivisionError"
    using find_best_agent_error [of now tbl p c ZeroDivisionError] by auto
  show "\<exists>r. find_best_agent now tbl p c = Inr r"
    if small: "\<forall>x\<in>snd ` set tbl. \<bar>running_tasks x\<bar> < 2 ^ 1023"
  proof (cases "filter (\<lambda>a. is_alive now a \<and> 0 < available_slots a) (map snd tbl) = []")
    case True
    then show ?thesis by (simp add: find_best_agent_empty)
  next
    case False
    have "\<forall>a\<in>snd ` set tbl. is_alive now a \<and> 0 < available_slots a
            \<longrightarrow> load_ratio a \<noteq> Inl OverflowError"
      using small load_ratio_in_range by fastforce
    from find_best_agent_in_range [OF False this, of c p] show ?thesis by blast
  qed
qed

text \<open>
  Witness for C10: a worker that advertises \<open>max_concurrent = 0\<close> and reports
  \<open>running_tasks = -1\<close> has a free slot; its load ratio is 1 and \<open>find_best_agent\<close>
  returns it.
\<close>

theorem load_ratio_no_zero_division_witness:
  "load_ratio (make_agent ''a1'' ''pc1'' {} [] (- 1) 0 100 0) = Inr 1
   \<and> find_best_agent 100 [(''a1'', make_agent ''a1'' ''pc1'' {} [] (- 1) 0 100 0)] None None
       = Inr (Some (make_agent ''a1'' ''pc1'' {} [] (- 1) 0 100 0))"
proof -
  have h: "max_concurrent (make_agent ''a1'' ''pc1'' {} [] (- 1) 0 100 0) = 0"
    by (simp add: make_agent_def)
  from load_ratio_no_zero_division [of "make_agent ''a1'' ''pc1'' {} [] (- 1) 0 100 0"] h
  have l: "load_ratio (make_agent ''a1'' ''pc1'' {} [] (- 1) 0 100 0) = Inr 1"
    by blast
  have "find_best_agent 100 [(''a1'', make_agent ''a1'' ''pc1'' {} [] (- 1) 0 100 0)] None None
          = Inr (Some (make_agent ''a1'' ''pc1'' {} [] (- 1) 0 100 0))"
    by (simp add: find_best_agent_def is_alive_def float_sub_def available_slots_def
          HEARTBEAT_TIMEOUT_def make_agent_def list_sort_def load_ratio_def
          float_of_fraction_def)
  with l show ?thesis by blast
qed

subsection \<open>Routing\<close>

text \<open>
  Counterexample to C3 as stated: the only agent is alive with a free slot, but its
  reported \<open>running_tasks\<close> of \<open>-10 ^ 400\<close> makes its load ratio too large for a float.
  \<open>find_best_agent(require_capability="claude_code")\<close> raises \<open>OverflowError\<close> in the
  sort and returns no agent.
\<close>

theorem find_best_agent_capability_counterexample:
  "is_alive 100 (make_agent ''a1'' ''pc1'' {''git''} [] (- (10 ^ 400)) 1 100 0)
   \<and> 0 < available_slots (make_agent ''a1'' ''pc1'' {''git''} [] (- (10 ^ 400)) 1 100 0)
   \<and> find_best_agent 100
        [(''a1'', make_agent ''a1'' ''pc1'' {''git''} [] (- (10 ^ 400)) 1 100 0)]
        None (Some ''claude_code'') = Inl OverflowError"
  by (simp add: find_best_agent_def is_alive_def float_sub_def available_slots_def
        HEARTBEAT_TIMEOUT_def make_agent_def list_sort_def load_ratio_def truediv_def
        float_of_fraction_def)

text \<open>
  C3, amended. Suppose no alive agent with a free slot has a load ratio too large for
  a float. Then \<open>find_best_agent\<close> with a required capability \<open>C\<close> returns \<open>None\<close> exactly
  when no registered agent is alive with a free slot. Whenever such an agent exists it
  returns one of them, even if no agent has \<open>C\<close>; and if \<open>C\<close> is not empty and some alive
  agent with a free slot has \<open>C\<close>, the agent returned has \<open>C\<close>: the filter narrows the
  pool when the narrowed pool is not empty. (This holds for every \<open>project_name\<close>.)
\<close>

theorem find_best_agent_capability_soft:
  assumes "\<forall>a\<in>snd ` set tbl. is_alive now a \<and> 0 < available_slots a
             \<longrightarrow> load_ratio a \<noteq> Inl OverflowError"
  shows "(find_best_agent now tbl p (Some c) = Inr None
            \<longleftrightarrow> \<not> (\<exists>a\<in>snd ` set tbl. is_alive now a \<and> 0 < available_slots a))
         \<and> ((\<exists>a\<in>snd ` set tbl. is_alive now a \<and> 0 < available_slots a)
              \<longrightarrow> (\<exists>r\<in>snd ` set tbl. is_alive now r \<and> 0 < available_slots r
                     \<and> find_best_agent now tbl p (Some c) = Inr (Some r)
                     \<and> (c \<noteq> []
                          \<and> (\<exists>a\<in>snd ` set tbl. is_alive now a \<and> 0 < available_slots a
                                                  \<and> c \<in> capabilities a)
                         \<longrightarrow> c \<in> capabilities r)))"
proof (cases "filter (\<lambda>a. is_alive now a \<and> 0 < available_slots a) (map snd tbl) = []")
  case True
  then have "\<not> (\<exists>a\<in>snd ` set tbl. is_alive now a \<and> 0 < available_slots a)"
    by (auto simp: filter_empty_conv)
  then show ?thesis using find_best_agent_empty [OF True, of p "Some c"] by simp
next
  case False
  then have ex: "\<exists>a\<in>snd ` set tbl. is_alive now a \<and> 0 < available_slots a"
    by (auto simp: filter_empty_conv)
  from find_best_agent_in_range [OF False assms, of "Some c" p] obtain pool where
    pool: "pool \<noteq> []"
      "set pool \<subseteq> {a \<in> snd ` set tbl. is_alive now a \<and> 0 < available_slots a}"
      "\<forall>t. Some c = Some t \<and> t \<noteq> []
            \<and> (\<exists>a\<in>snd ` set tbl. is_alive now a \<and> 0 < available_slots a
                                    \<and> t \<in> capabilities a)
           \<longrightarrow> (\<forall>a\<in>set pool. t \<in> capabilities a)"
      "find_best_agent now tbl p (Some c) = Inr (Some (hd (sort_key load pool)))"
    by blast
  define r where "r = hd (sort_key load pool)"
  have mem: "r \<in> set pool" unfolding r_def using pool(1) by (rule hd_sort_key_mem)
  then have r1: "r \<in> snd ` set tbl" "is_alive now r" "0 < available_slots r"
    using pool(2) by blast+
  have r2: "find_best_agent now tbl p (Some c) = Inr (Some r)"
    using pool(4) by (simp add: r_def)
  have r3: "c \<noteq> [] \<and> (\<exists>a\<in>snd ` set tbl. is_alive now a \<and> 0 < available_slots a
                                           \<and> c \<in> capabilities a)
            \<longrightarrow> c \<in> capabilities r"
    using pool(3) mem by blast
  have "\<exists>r\<in>snd ` set tbl. is_alive now r \<and> 0 < available_slots r
          \<and> find_best_agent now tbl p (Some c) = Inr (Some r)
          \<and> (c \<noteq> [] \<and> (\<exists>a\<in>snd ` set tbl. is_alive now a \<and> 0 < available_slots a
                                               \<and> c \<in> capabilities a)
              \<longrightarrow> c \<in> capabilities r)"
    using r1 r2 r3 by blast
  then show ?thesis using r2 ex by simp
qed

text \<open>
  Witness for C3: \<open>pc1\<close> is idle and has \<open>git\<close>; \<open>pc2\<close> runs two tasks of three and has
  \<open>git\<close> and \<open>claude_code\<close>. A request that requires \<open>claude_code\<close> goes to \<open>pc2\<close>; a
  request that requires \<open>docker\<close>, which no agent has, goes to the idle \<open>pc1\<close>.
\<close>

theorem find_best_agent_capability_soft_witness:
  "find_best_agent 100
     [(''a1'', make_agent ''a1'' ''pc1'' {''git''} [] 0 3 100 0),
      (''a2'', make_agent ''a2'' ''pc2'' {''git'', ''claude_code''} [] 2 3 100 0)]
     None (Some ''claude_code'')
     = Inr (Some (make_agent ''a2'' ''pc2'' {''git'', ''claude_code''} [] 2 3 100 0))
   \<and> find_best_agent 100
     [(''a1'', make_agent ''a1'' ''pc1'' {''git''} [] 0 3 100 0),
      (''a2'', make_agent ''a2'' ''pc2'' {''git'', ''claude_code''} [] 2 3 100 0)]
     None (Some ''docker'')
     = Inr (Some (make_agent ''a1'' ''pc1'' {''git''} [] 0 3 100 0))"
proof -
  let ?tbl = "[(''a1'', make_agent ''a1'' ''pc1'' {''git''} [] 0 3 100 0),
      (''a2'', make_agent ''a2'' ''pc2'' {''git'', ''claude_code''} [] 2 3 100 0)]"
  have h: "\<forall>a\<in>snd ` set ?tbl. is_alive 100 a \<and> 0 < available_slots a
             \<longrightarrow> load_ratio a \<noteq> Inl OverflowError"
    by (simp add: load_ratio_in_range make_agent_def)
  have ex: "\<exists>a\<in>snd ` set ?tbl. is_alive 100 a \<and> 0 < available_slots a"
    by (simp add: is_alive_def float_sub_def available_slots_def HEARTBEAT_TIMEOUT_def
          make_agent_def float_of_fraction_def)
  from find_best_agent_capability_soft [OF h, of None "''claude_code''"] ex
  obtain r where r: "r \<in> snd ` set ?tbl"
      "find_best_agent 100 ?tbl None (Some ''claude_code'') = Inr (Some r)"
      "''claude_code'' \<noteq> []
         \<and> (\<exists>a\<in>snd ` set ?tbl. is_alive 100 a \<and> 0 < available_slots a
                                  \<and> ''claude_code'' \<in> capabilities a)
        \<longrightarrow> ''claude_code'' \<in> capabilities r"
    by blast
  have has: "\<exists>a\<in>snd ` set ?tbl. is_alive 100 a \<and> 0 < available_slots a
                            \<and> ''claude_code'' \<in> capabilities a"
    by (simp add: is_alive_def float_sub_def available_slots_def HEARTBEAT_TIMEOUT_def
          make_agent_def float_of_fraction_def)
  have ne: "''claude_code'' \<noteq> []" by simp
  from r(3) ne has have "''claude_code'' \<in> capabilities r" by blast
  with r(1) have "r = make_agent ''a2'' ''pc2'' {''git'', ''claude_code''} [] 2 3 100 0"
    by (auto simp: make_agent_def)
  with r(2) have first: "find_best_agent 100 ?tbl None (Some ''claude_code'')
      = Inr (Some (make_agent ''a2'' ''pc2'' {''git'', ''claude_code''} [] 2 3 100 0))"
    by simp
  have second: "find_best_agent 100 ?tbl None (Some ''docker'')
      = Inr (Some (make_agent ''a1'' ''pc1'' {''git''} [] 0 3 100 0))"
    by (simp add: find_best_agent_def is_alive_def float_sub_def available_slots_def
          HEARTBEAT_TIMEOUT_def make_agent_def list_sort_def load_ratio_def float_eval)
  from first second show ?thesis by blast
qed

text \<open>
  Counterexamples to C4 as stated. First, the project name is the empty string: the
  test \<open>if project_name:\<close> is false for it, so the project filter is skipped and the
  least loaded agent is returned, which does not have the project, although an alive
  agent with a free slot has it. Second, the agent that has the project \<open>web\<close> reports
  \<open>running_tasks = -10 ^ 400\<close>: its load ratio is too large for a float and
  \<open>find_best_agent(project_name="web")\<close> raises \<open>OverflowError\<close> instead of returning it.
\<close>

theorem find_best_agent_project_counterexample:
  "([] \<in> fst ` set (project_paths (make_agent ''a2'' ''pc2'' {} [([], ''/srv/x'')] 1 3 100 0))
    \<and> is_alive 100 (make_agent ''a2'' ''pc2'' {} [([], ''/srv/x'')] 1 3 100 0)
    \<and> 0 < available_slots (make_agent ''a2'' ''pc2'' {} [([], ''/srv/x'')] 1 3 100 0)
    \<and> find_best_agent 100
         [(''a1'', make_agent ''a1'' ''pc1'' {} [] 0 3 100 0),
          (''a2'', make_agent ''a2'' ''pc2'' {} [([], ''/srv/x'')] 1 3 100 0)]
         (Some []) None
       = Inr (Some (make_agent ''a1'' ''pc1'' {} [] 0 3 100 0))
    \<and> [] \<notin> fst ` set (project_paths (make_agent ''a1'' ''pc1'' {} [] 0 3 100 0)))
   \<and> (''web'' \<in> fst ` set (project_paths
          (make_agent ''a1'' ''pc1'' {} [(''web'', ''/srv/web'')] (- (10 ^ 400)) 1 100 0))
    \<and> is_alive 100
          (make_agent ''a1'' ''pc1'' {} [(''web'', ''/srv/web'')] (- (10 ^ 400)) 1 100 0)
    \<and> 0 < available_slots
          (make_agent ''a1'' ''pc1'' {} [(''web'', ''/srv/web'')] (- (10 ^ 400)) 1 100 0)
    \<and> find_best_agent 100
         [(''a1'', make_agent ''a1'' ''pc1'' {} [(''web'', ''/srv/web'')] (- (10 ^ 400)) 1 100 0)]
         (Some ''web'') None
       = Inl OverflowError)"
proof (intro conjI)
  show "find_best_agent 100
         [(''a1'', make_agent ''a1'' ''pc1'' {} [] 0 3 100 0),
          (''a2'', make_agent ''a2'' ''pc2'' {} [([], ''/srv/x'')] 1 3 100 0)]
         (Some []) None
       = Inr (Some (make_agent ''a1'' ''pc1'' {} [] 0 3 100 0))"
    by (simp add: find_best_agent_def is_alive_def float_sub_def available_slots_def
          HEARTBEAT_TIMEOUT_def make_agent_def list_sort_def load_ratio_def float_eval)
  show "find_best_agent 100
         [(''a1'', make_agent ''a1'' ''pc1'' {} [(''web'', ''/srv/web'')] (- (10 ^ 400)) 1 100 0)]
         (Some ''web'') None
       = Inl OverflowError"
    by (simp add: find_best_agent_def is_alive_def float_sub_def available_slots_def
          HEARTBEAT_TIMEOUT_def make_agent_def list_sort_def load_ratio_def truediv_def
          float_of_fraction_def)
qed (simp_all add: is_alive_def float_sub_def available_slots_def HEARTBEAT_TIMEOUT_def
       make_agent_def float_of_fraction_def)

text \<open>
  C4, amended. For a non-empty project name \<open>P\<close>, and when no alive agent with a free
  slot has a load ratio too large for a float: if some alive agent with a free slot has
  \<open>P\<close> in its project map, \<open>find_best_agent(project_name=P)\<close> returns an alive agent
  with a free slot that has \<open>P\<close> in its project map, whatever the load of the agents
  without \<open>P\<close>.
\<close>

theorem find_best_agent_project_locality:
  assumes "P \<noteq> []"
    and "\<exists>a\<in>snd ` set tbl. is_alive now a \<and> 0 < available_slots a
           \<and> P \<in> fst ` set (project_paths a)"
    and "\<forall>a\<in>snd ` set tbl. is_alive now a \<and> 0 < available_slots a
           \<longrightarrow> load_ratio a \<noteq> Inl OverflowError"
  shows "\<exists>r\<in>snd ` set tbl. find_best_agent now tbl (Some P) None = Inr (Some r)
           \<and> P \<in> fst ` set (project_paths r)
           \<and> is_alive now r \<and> 0 < available_slots r"
proof -
  let ?pool = "filter (\<lambda>a. P \<in> fst ` set (project_paths a))
                 (filter (\<lambda>a. is_alive now a \<and> 0 < available_slots a) (map snd tbl))"
  have ne: "?pool \<noteq> []" using assms(2) by (auto simp: filter_empty_conv)
  have res: "find_best_agent now tbl (Some P) None = Inr (Some (hd (sort_key load ?pool)))"
    using assms(1) ne assms(3) by (rule find_best_agent_project)
  have "hd (sort_key load ?pool) \<in> set ?pool" using ne by (rule hd_sort_key_mem)
  then show ?thesis using res by auto
qed

text \<open>
  Witness for C4: the agent without the project is idle, the agent with it runs two
  tasks of three; the request for the project goes to the loaded agent that has it.
\<close>

theorem find_best_agent_project_locality_witness:
  "load (make_agent ''a1'' ''macbook'' {} [] 0 3 100 0)
     < load (make_agent ''a2'' ''linux-pc'' {} [(''divenamic'', ''/home/dev/divenamic'')] 2 3 100 0)
   \<and> find_best_agent 100
        [(''a1'', make_agent ''a1'' ''macbook'' {} [] 0 3 100 0),
         (''a2'', make_agent ''a2'' ''linux-pc'' {} [(''divenamic'', ''/home/dev/divenamic'')] 2 3 100 0)]
        (Some ''divenamic'') None
      = Inr (Some (make_agent ''a2'' ''linux-pc'' {} [(''divenamic'', ''/home/dev/divenamic'')] 2 3 100 0))"
proof -
  let ?tbl = "[(''a1'', make_agent ''a1'' ''macbook'' {} [] 0 3 100 0),
         (''a2'', make_agent ''a2'' ''linux-pc'' {} [(''divenamic'', ''/home/dev/divenamic'')] 2 3 100 0)]"
  have h1: "''divenamic'' \<noteq> []" by simp
  have h2: "\<exists>a\<in>snd ` set ?tbl. is_alive 100 a \<and> 0 < available_slots a
              \<and> ''divenamic'' \<in> fst ` set (project_paths a)"
    by (simp add: is_alive_def float_sub_def available_slots_def HEARTBEAT_TIMEOUT_def
          make_agent_def float_of_fraction_def)
  have h3: "\<forall>a\<in>snd ` set ?tbl. is_alive 100 a \<and> 0 < available_slots a
              \<longrightarrow> load_ratio a \<noteq> Inl OverflowError"
    by (simp add: load_ratio_in_range make_agent_def)
  from find_best_agent_project_locality [OF h1 h2 h3] obtain r where
    r: "r \<in> snd ` set ?tbl" "find_best_agent 100 ?tbl (Some ''divenamic'') None = Inr (Some r)"
       "''divenamic'' \<in> fst ` set (project_paths r)"
    by blast
  from r(1,3) have "r = make_agent ''a2'' ''linux-pc'' {}
                          [(''divenamic'', ''/home/dev/divenamic'')] 2 3 100 0"
    by (auto simp: make_agent_def)
  with r(2) have found: "find_best_agent 100 ?tbl (Some ''divenamic'') None
      = Inr (Some (make_agent ''a2'' ''linux-pc'' {}
                     [(''divenamic'', ''/home/dev/divenamic'')] 2 3 100 0))"
    by simp
  have "load (make_agent ''a1'' ''macbook'' {} [] 0 3 100 0)
     < load (make_agent ''a2'' ''linux-pc'' {} [(''divenamic'', ''/home/dev/divenamic'')] 2 3 100 0)"
    by (simp add: load_def load_ratio_def make_agent_def float_eval)
  with found show ?thesis by blast
qed

text \<open>
  Counterexamples to C5 as stated. First, two idle agents with the same load ratio;
  the one stored first in the table connected later: \<open>find_best_agent()\<close> returns the
  first in the table, not the one with the earliest \<open>connected_at\<close>. Second, the load
  ratios are floats: \<open>333333333333333333 / 10 ^ 18\<close> is less than \<open>1 / 3\<close>, but both
  round to the same float, so the agent with the strictly lower ratio, which also
  connected earlier, is not returned. Third, an agent whose load ratio is too large
  for a float makes the sort raise \<open>OverflowError\<close>.
\<close>

theorem find_best_agent_tie_counterexample:
  "(load_ratio (make_agent ''a1'' ''pc1'' {} [] 0 3 100 20)
      = load_ratio (make_agent ''a2'' ''pc2'' {} [] 0 3 100 10)
    \<and> connected_at (make_agent ''a2'' ''pc2'' {} [] 0 3 100 10)
        < connected_at (make_agent ''a1'' ''pc1'' {} [] 0 3 100 20)
    \<and> is_alive 100 (make_agent ''a2'' ''pc2'' {} [] 0 3 100 10)
    \<and> 0 < available_slots (make_agent ''a2'' ''pc2'' {} [] 0 3 100 10)
    \<and> find_best_agent 100
         [(''a1'', make_agent ''a1'' ''pc1'' {} [] 0 3 100 20),
          (''a2'', make_agent ''a2'' ''pc2'' {} [] 0 3 100 10)] None None
       = Inr (Some (make_agent ''a1'' ''pc1'' {} [] 0 3 100 20)))
   \<and> ((333333333333333333 :: rat) / 10 ^ 18 < 1 / 3
      \<and> is_alive 100 (make_agent ''a2'' ''pc2'' {} [] 333333333333333333 (10 ^ 18) 100 10)
      \<and> 0 < available_slots
              (make_agent ''a2'' ''pc2'' {} [] 333333333333333333 (10 ^ 18) 100 10)
      \<and> find_best_agent 100
           [(''a1'', make_agent ''a1'' ''pc1'' {} [] 1 3 100 20),
            (''a2'', make_agent ''a2'' ''pc2'' {} [] 333333333333333333 (10 ^ 18) 100 10)]
           None None
         = Inr (Some (make_agent ''a1'' ''pc1'' {} [] 1 3 100 20)))
   \<and> (is_alive 100 (make_agent ''a1'' ''pc1'' {} [] (- (10 ^ 400)) 1 100 0)
      \<and> 0 < available_slots (make_agent ''a1'' ''pc1'' {} [] (- (10 ^ 400)) 1 100 0)
      \<and> find_best_agent 100
           [(''a1'', make_agent ''a1'' ''pc1'' {} [] (- (10 ^ 400)) 1 100 0)] None None
         = Inl OverflowError)"
proof (intro conjI)
  show "find_best_agent 100
         [(''a1'', make_agent ''a1'' ''pc1'' {} [] 0 3 100 20),
          (''a2'', make_agent ''a2'' ''pc2'' {} [] 0 3 100 10)] None None
       = Inr (Some (make_agent ''a1'' ''pc1'' {} [] 0 3 100 20))"
    by (simp add: find_best_agent_def is_alive_def float_sub_def available_slots_def
          HEARTBEAT_TIMEOUT_def make_agent_def list_sort_def load_ratio_def float_eval)
  show "find_best_agent 100
           [(''a1'', make_agent ''a1'' ''pc1'' {} [] 1 3 100 20),
            (''a2'', make_agent ''a2'' ''pc2'' {} [] 333333333333333333 (10 ^ 18) 100 10)]
           None None
         = Inr (Some (make_agent ''a1'' ''pc1'' {} [] 1 3 100 20))"
    by (simp add: find_best_agent_def is_alive_def float_sub_def available_slots_def
          HEARTBEAT_TIMEOUT_def make_agent_def list_sort_def load_ratio_def float_eval)
  show "find_best_agent 100
           [(''a1'', make_agent ''a1'' ''pc1'' {} [] (- (10 ^ 400)) 1 100 0)] None None
         = Inl OverflowError"
    by (simp add: find_best_agent_def is_alive_def float_sub_def available_slots_def
          HEARTBEAT_TIMEOUT_def make_agent_def list_sort_def load_ratio_def truediv_def
          float_of_fraction_def)
qed (simp_all add: is_alive_def float_sub_def available_slots_def HEARTBEAT_TIMEOUT_def
       make_agent_def load_ratio_def truediv_def float_of_fraction_def)

text \<open>
  C5, amended. When some agent is alive with a free slot and no such agent has a load
  ratio too large for a float, \<open>find_best_agent()\<close> with no filters returns a candidate
  \<open>r\<close> whose load ratio, as the float that \<open>load_ratio\<close> computes, is lowest, and among
  the candidates with that float the first in the order of the agent table: every
  candidate before \<open>r\<close> has a strictly higher float, every candidate after it a float
  at least as high. \<open>connected_at\<close> is not consulted.
\<close>

theorem find_best_agent_least_loaded:
  assumes "\<exists>a\<in>snd ` set tbl. is_alive now a \<and> 0 < available_slots a"
    and "\<forall>a\<in>snd ` set tbl. is_alive now a \<and> 0 < available_slots a
           \<longrightarrow> load_ratio a \<noteq> Inl OverflowError"
  shows "\<exists>before r after.
           filter (\<lambda>a. is_alive now a \<and> 0 < available_slots a) (map snd tbl)
             = before @ r # after
           \<and> find_best_agent now tbl None None = Inr (Some r)
           \<and> load_ratio r = Inr (load r)
           \<and> (\<forall>a\<in>set before. load_ratio a = Inr (load a) \<and> load r < load a)
           \<and> (\<forall>a\<in>set after. load_ratio a = Inr (load a) \<and> load r \<le> load a)"
proof -
  let ?cands = "filter (\<lambda>a. is_alive now a \<and> 0 < available_slots a) (map snd tbl)"
  have ne: "?cands \<noteq> []" using assms(1) by (auto simp: filter_empty_conv)
  define r where "r = hd (sort_key load ?cands)"
  have res: "find_best_agent now tbl None None = Inr (Some r)"
    using ne by (simp add: find_best_agent_unfiltered [OF assms(2)] r_def)
  have keys: "\<forall>a\<in>set ?cands. load_ratio a = Inr (load a)"
    using assms(2) load_ratio_Inr by auto
  from hd_sort_key_first_min [OF ne, of load] obtain before after where
    dec: "?cands = before @ r # after"
    and lt: "\<forall>a\<in>set before. load r < load a"
    and le: "\<forall>a\<in>set after. load r \<le> load a"
    unfolding r_def by blast
  have "set ?cands = set (before @ r # after)" using dec by simp
  then have sub: "set before \<subseteq> set ?cands" "set after \<subseteq> set ?cands" "r \<in> set ?cands"
    by auto
  show ?thesis
    by (rule exI [of _ before], rule exI [of _ r], rule exI [of _ after])
       (use dec res lt le keys sub in blast)
qed

text \<open>
  Witness for C5: of a busy agent (two tasks of three) and an idle one, the idle one
  is returned although it is second in the table.
\<close>

theorem find_best_agent_least_loaded_witness:
  "find_best_agent 100
     [(''a1'', make_agent ''a1'' ''busy-pc'' {} [] 2 3 100 0),
      (''a2'', make_agent ''a2'' ''idle-pc'' {} [] 0 3 100 0)] None None
   = Inr (Some (make_agent ''a2'' ''idle-pc'' {} [] 0 3 100 0))"
proof -
  let ?busy = "make_agent ''a1'' ''busy-pc'' {} [] 2 3 100 0"
  let ?idle = "make_agent ''a2'' ''idle-pc'' {} [] 0 3 100 0"
  have h: "\<exists>a\<in>snd ` set [(''a1'', ?busy), (''a2'', ?idle)].
             is_alive 100 a \<and> 0 < available_slots a"
    by (simp add: is_alive_def float_sub_def available_slots_def HEARTBEAT_TIMEOUT_def
          make_agent_def float_of_fraction_def)
  have h2: "\<forall>a\<in>snd ` set [(''a1'', ?busy), (''a2'', ?idle)].
              is_alive 100 a \<and> 0 < available_slots a \<longrightarrow> load_ratio a \<noteq> Inl OverflowError"
    by (simp add: load_ratio_in_range make_agent_def)
  have cands: "filter (\<lambda>a. is_alive 100 a \<and> 0 < available_slots a)
                 (map snd [(''a1'', ?busy), (''a2'', ?idle)]) = [?busy, ?idle]"
    by (simp add: is_alive_def float_sub_def available_slots_def HEARTBEAT_TIMEOUT_def
          make_agent_def float_of_fraction_def)
  from find_best_agent_least_loaded [OF h h2] obtain before r after where
    dec: "[?busy, ?idle] = before @ r # after"
    and res: "find_best_agent 100 [(''a1'', ?busy), (''a2'', ?idle)] None None = Inr (Some r)"
    and lt: "\<forall>a\<in>set before. load_ratio a = Inr (load a) \<and> load r < load a"
    and le: "\<forall>a\<in>set after. load_ratio a = Inr (load a) \<and> load r \<le> load a"
    unfolding cands by blast
  have l: "load ?idle < load ?busy"
    by (simp add: load_def load_ratio_def make_agent_def float_eval)
  have "r = ?idle"
  proof (cases before)
    case Nil
    with dec have "r = ?busy" "after = [?idle]" by simp_all
    with le l show ?thesis by auto
  next
    case (Cons x xs)
    with dec have "x = ?busy" "xs @ r # after = [?idle]" by simp_all
    then show ?thesis by (cases xs) simp_all
  qed
  then show ?thesis using res by simp
qed

subsection \<open>Connections\<close>

text \<open>
  C8. A connection whose \<open>authorization\<close> header (the empty string when the header is
  missing) is not \<open>Bearer\<close>, a space and the shared secret is closed with code 4001 and
  \<open>handle_agent_connection\<close> returns: the registry state, and with it the agent table,
  is unchanged and no \<open>AgentInfo\<close> is created.
\<close>

theorem handle_agent_connection_unauthorized:
  assumes "get_or (map_of headers ''authorization'') [] \<noteq> ''Bearer '' @ ws_secret st"
  shows "handle_agent_connection st headers sock new_id t1 t2
           = (st, Closed 4001 ''Unauthorized'')"
  using assms by (simp add: handle_agent_connection_def)

text \<open>
  Witness for C8: a registry with secret \<open>test\<close> and one registered agent receives a
  connection with the wrong token; the connection is closed with 4001 and the table
  still holds that one agent.
\<close>

theorem handle_agent_connection_unauthorized_witness:
  "handle_agent_connection
     ((new_mesh ''test'')\<lparr>agents := [(''a1'', make_agent ''a1'' ''pc1'' {} [] 0 3 100 0)]\<rparr>)
     [(''authorization'', ''Bearer wrong'')] 7 ''a2'' 100 100
   = ((new_mesh ''test'')\<lparr>agents := [(''a1'', make_agent ''a1'' ''pc1'' {} [] 0 3 100 0)]\<rparr>,
      Closed 4001 ''Unauthorized'')"
proof -
  have h: "get_or (map_of [(''authorization'', ''Bearer wrong'')] ''authorization'') []
             \<noteq> ''Bearer ''
                 @ ws_secret ((new_mesh ''test'')
                     \<lparr>agents := [(''a1'', make_agent ''a1'' ''pc1'' {} [] 0 3 100 0)]\<rparr>)"
    by (simp add: get_or_def new_mesh_def)
  show ?thesis by (rule handle_agent_connection_unauthorized [OF h])
qed

subsection \<open>Process supervisor\<close>

text \<open>
  Counterexample to C6 as stated: when the spawn raises \<open>FileNotFoundError\<close> the result
  carries the exit code \<open>-1\<close>, not no exit code.
\<close>

theorem process_manager_spawn_failure_counterexample:
  "p_exit_code (snd (run [] ''nosuchcmd'' 120 ''t1'' 0 File_not_found)) = Some (- 1)
   \<and> p_exit_code (snd (run [] ''nosuchcmd'' 120 ''t1'' 0 File_not_found)) \<noteq> None"
  by (simp add: run_def)

text \<open>
  C6, amended. When \<open>ProcessManager.run\<close> fails to spawn the command it returns
  \<open>success = False\<close>, a message that names the failure (the command that was not found,
  or the text of the exception), and the exit code \<open>-1\<close>; the table of active
  processes is unchanged.
\<close>

theorem process_manager_spawn_failure:
  "run active command timeout task_id proc File_not_found
     = (active, \<lparr>p_success = False,
                 p_output = ''Comando no encontrado: '' @ command,
                 p_exit_code = Some (- 1)\<rparr>)
   \<and> run active command timeout task_id proc (Spawn_error e)
     = (active, \<lparr>p_success = False,
                 p_output = ''Error ejecutando comando: '' @ e,
                 p_exit_code = Some (- 1)\<rparr>)"
  by (simp add: run_def)

text \<open>
  C7. On normal exit the returned output is the captured output when that has at most
  50000 characters; otherwise it is the first 50000 characters followed by the
  truncation marker, so it ends with the marker. In both cases its length is at most
  50000 plus the length of the marker.
\<close>

theorem process_manager_output_capped:
  "max_output = 50000
   \<and> p_output (snd (run active command timeout task_id proc (Exited rc out)))
       = (if length out > max_output then take max_output out @ truncation_marker else out)
   \<and> (length out > max_output \<longrightarrow>
        length (p_output (snd (run active command timeout task_id proc (Exited rc out))))
          = max_output + length truncation_marker)
   \<and> length (p_output (snd (run active command timeout task_id proc (Exited rc out))))
       \<le> max_output + length truncation_marker"
  by (simp add: run_def Let_def max_output_def)

text \<open>
  Witness for C7: an output of 50001 characters comes back as its first 50000
  characters and the marker, 50023 characters in all.
\<close>

theorem process_manager_output_capped_witness:
  "p_output (snd (run [] ''yes'' 5 ''t1'' 0 (Exited 0 (replicate 50001 CHR ''y''))))
     = replicate 50000 CHR ''y'' @ truncation_marker
   \<and> length (p_output (snd (run [] ''yes'' 5 ''t1'' 0 (Exited 0 (replicate 50001 CHR ''y'')))))
     = 50023"
proof -
  define out where "out = replicate 50001 CHR ''y''"
  have len: "length out = 50001"
    unfolding out_def by (simp only: length_replicate)
  have h: "length out > max_output"
    unfolding len max_output_def by simp
  have m: "min (50000::nat) 50001 = 50000" by simp
  have tk: "take max_output out = replicate 50000 CHR ''y''"
    unfolding out_def max_output_def by (simp only: take_replicate m)
  have mk: "length truncation_marker = 23"
    by (simp add: truncation_marker_def)
  have mo: "max_output + 23 = 50023"
    unfolding max_output_def by simp
  note capped = process_manager_output_capped [of "[]" "''yes''" 5 "''t1''" 0 0 out]
  from capped have "p_output (snd (run [] ''yes'' 5 ''t1'' 0 (Exited 0 out)))
      = (if length out > max_output then take max_output out @ truncation_marker else out)"
    by blast
  with h have out_eq: "p_output (snd (run [] ''yes'' 5 ''t1'' 0 (Exited 0 out)))
                         = take max_output out @ truncation_marker"
    by (simp only: if_True)
  from capped h
  have out_len: "length (p_output (snd (run [] ''yes'' 5 ''t1'' 0 (Exited 0 out))))
                    = max_output + length truncation_marker"
    by blast
  note e1 = out_eq [unfolded tk]
  note l1 = out_len [unfolded mk mo]
  show ?thesis
    using e1 l1 unfolding out_def by blast
qed

subsection \<open>Reconnect backoff\<close>

text \<open>
  Counterexample to C9 as stated: three attempts in a row open the connection and
  fail to send the \<open>hello\<close>, so none of them registers. The delay is reset each time
  the connection opens, and the sleeps between these failed attempts are 5, 5, 5, not
  5, 10, 20.
\<close>

theorem reconnect_backoff_counterexample:
  "start [(Hello_failed, True), (Hello_failed, True), (Hello_failed, True)] = [5, 5, 5]"
  by (simp add: start_def start_pass_def RECONNECT_DELAY_def MAX_RECONNECT_DELAY_def)

text \<open>
  C9, amended. The reconnect loop of the daemon sleeps 5 seconds after the first failure
  to open the connection, doubles the delay after every sleep and caps it at 60: after
  \<open>n\<close> consecutive attempts that fail to open the connection the sleeps are
  \<open>min (5 * 2 ^ k) 60\<close> for \<open>k < n\<close>, that is 5, 10, 20, 40, 60, 60, ... No sleep is ever
  shorter than 5 or longer than 60 seconds, whatever the history of attempts. Opening
  the connection resets the delay, whether or not the registration that follows
  succeeds: when the attempt ends, the sleep is 5 seconds and the next delay 10,
  whatever the delay was before.
\<close>

theorem reconnect_backoff:
  "start (replicate n (Connect_failed, True)) = map (\<lambda>k. min (5 * 2 ^ k) 60) [0..<n]
   \<and> start (replicate 6 (Connect_failed, True)) = [5, 10, 20, 40, 60, 60]
   \<and> (\<forall>s\<in>set (start history). 5 \<le> s \<and> s \<le> 60)
   \<and> start_loop ((Registered, True) # rest) d = 5 # start_loop rest 10
   \<and> start_loop ((Hello_failed, True) # rest) d = 5 # start_loop rest 10"
proof (intro conjI)
  show "start (replicate n (Connect_failed, True)) = map (\<lambda>k. min (5 * 2 ^ k) 60) [0..<n]"
    unfolding start_def RECONNECT_DELAY_def by (rule start_loop_failures) simp_all
  show "start (replicate 6 (Connect_failed, True)) = [5, 10, 20, 40, 60, 60]"
    by (simp add: start_def eval_nat_numeral start_pass_def RECONNECT_DELAY_def
          MAX_RECONNECT_DELAY_def)
  show "\<forall>s\<in>set (start history). 5 \<le> s \<and> s \<le> 60"
    unfolding start_def RECONNECT_DELAY_def by (rule start_loop_bounds) simp_all
  show "start_loop ((Registered, True) # rest) d = 5 # start_loop rest 10"
    by (simp add: start_pass_def RECONNECT_DELAY_def MAX_RECONNECT_DELAY_def)
  show "start_loop ((Hello_failed, True) # rest) d = 5 # start_loop rest 10"
    by (simp add: start_pass_def RECONNECT_DELAY_def MAX_RECONNECT_DELAY_def)
qed

text \<open>
  Witness for C9: two attempts that fail to connect, a registration whose link drops
  later, and another attempt that fails to connect give the sleeps 5, 10, 5, 10.
\<close>

theorem reconnect_backoff_witness:
  "start [(Connect_failed, True), (Connect_failed, True), (Registered, True),
          (Connect_failed, True)] = [5, 10, 5, 10]"
proof -
  note b = reconnect_backoff
    [of 2 "[(Connect_failed, True), (Connect_failed, True), (Registered, True),
            (Connect_failed, True)]" "[(Connect_failed, True)]" 20]
  from b have two: "start (replicate 2 (Connect_failed, True)) = map (\<lambda>k. min (5 * 2 ^ k) 60) [0..<2]"
    and reset: "start_loop ((Registered, True) # [(Connect_failed, True)]) 20
                  = 5 # start_loop [(Connect_failed, True)] 10"
    by blast+
  have "start [(Connect_failed, True), (Connect_failed, True), (Registered, True),
          (Connect_failed, True)]
        = [5, 10] @ start_loop ((Registered, True) # [(Connect_failed, True)]) 20"
    by (simp add: start_def start_pass_def RECONNECT_DELAY_def MAX_RECONNECT_DELAY_def)
  also have "\<dots> = [5, 10] @ 5 # start_loop [(Connect_failed, True)] 10"
    by (simp only: reset)
  also have "\<dots> = [5, 10, 5, 10]"
    by (simp add: start_pass_def MAX_RECONNECT_DELAY_def)
  finally show ?thesis .
qed

subsection \<open>The running-task counter and cleanup\<close>

text \<open>
  C1 does not hold of the code: the \<open>result\<close> branch of \<open>_handle_message\<close> decrements
  \<open>running_tasks\<close> before it looks the task up, whether or not the request is still
  pending. Here one agent connects and two requests \<open>t1\<close> and \<open>t2\<close> are dispatched to
  it (counter 1, then 2). \<open>t1\<close> times out in the registry (counter 1). The late result
  for \<open>t1\<close> then arrives and the counter drops to 0, a second decrement for the same
  request, while \<open>t2\<close> is still pending and unresolved.
\<close>

theorem running_tasks_double_decrement:
  "(let st0 = fst (handle_agent_connection (new_mesh ''secret'')
                     [(''authorization'', ''Bearer secret'')] 0 ''a1'' 0 0);
        (st1, d1) = run_command_dispatch st0 1 ''t1'' True ''sleep 60'' [] 1 None;
        (st2, d2) = run_command_dispatch st1 1 ''t2'' True ''make'' [] 120 None;
        (st3, c3) = run_command_wait st2
                      \<lparr>w_agent = ''a1'', w_task = ''t1'', w_future = 0, w_timeout = 1\<rparr> True;
        st4 = handle_message ''a1''
                (Result (Some ''t1'') \<lparr>r_success = Some False, r_output = Some ''late''\<rparr>)
                13 st3
    in d1 = Sent \<lparr>w_agent = ''a1'', w_task = ''t1'', w_future = 0, w_timeout = 1\<rparr>
                 (Run_command ''t1'' ''sleep 60'' [] 1)
       \<and> d2 = Sent \<lparr>w_agent = ''a1'', w_task = ''t2'', w_future = 1, w_timeout = 120\<rparr>
                   (Run_command ''t2'' ''make'' [] 120)
       \<and> map (running_tasks \<circ> snd) (agents st1) = [1]
       \<and> map (running_tasks \<circ> snd) (agents st2) = [2]
       \<and> c3 = Completed \<lparr>er_success = False,
                          er_output = ''Timeout (1s) en agente unknown.''\<rparr>
       \<and> map (running_tasks \<circ> snd) (agents st3) = [1]
       \<and> map (running_tasks \<circ> snd) (agents st4) = [0]
       \<and> pending st4 = [(''t2'', 1)]
       \<and> futures st4 = [Cancelled, Waiting])"
  by (simp add: handle_agent_connection_def new_mesh_def get_or_def run_command_dispatch_def
        find_best_agent_def is_alive_def float_sub_def available_slots_def HEARTBEAT_TIMEOUT_def
        list_sort_def load_ratio_def float_eval update_agent_obj_def run_command_wait_def
        agent_obj_def handle_message_def str_int_def AList.delete_eq)

text \<open>
  C2 does not hold of the code: \<open>_cleanup_agent\<close> resolves every unresolved future in
  \<open>_pending\<close>, not only those of the agent it removes (\<open>_pending\<close> does not record the
  owner). Here agents \<open>a1\<close> (\<open>pc1\<close>) and \<open>a2\<close> (\<open>pc2\<close>) are connected and only \<open>a2\<close> has
  the project \<open>web\<close>; a command for \<open>web\<close> is dispatched to \<open>a2\<close>. Then \<open>a1\<close> is cleaned
  up: \<open>a2\<close> stays in the table, yet the request sent to \<open>a2\<close> is resolved with the
  failure "Agente pc1 se desconecto.", which its caller returns; its entry stays in
  \<open>_pending\<close> and the counter of \<open>a2\<close> stays at 1.
\<close>

theorem cleanup_agent_fails_other_agents_requests:
  "(let st0 = (new_mesh ''secret'')
                \<lparr>agents :=
                   [(''a1'', (make_agent ''a1'' ''pc1'' {} [] 0 3 0 0)\<lparr>ws := Some 0\<rparr>),
                    (''a2'', (make_agent ''a2'' ''pc2'' {} [(''web'', ''/srv/web'')] 0 3 0 0)
                               \<lparr>ws := Some 1\<rparr>)]\<rparr>;
        (st1, d) = run_command_dispatch st0 1 ''t1'' True ''make'' [] 120 (Some ''web'');
        w = \<lparr>w_agent = ''a2'', w_task = ''t1'', w_future = 0, w_timeout = 120\<rparr>;
        st2 = cleanup_agent ''a1'' st1
    in d = Sent w (Run_command ''t1'' ''make'' ''/srv/web'' 120)
       \<and> futures st1 = [Waiting]
       \<and> map fst (agents st2) = [''a2'']
       \<and> futures st2 = [Done \<lparr>r_success = Some False,
                                r_output = Some ''Agente pc1 se desconecto.''\<rparr>]
       \<and> pending st2 = [(''t1'', 0)]
       \<and> map (running_tasks \<circ> snd) (agents st2) = [1]
       \<and> run_command_wait st2 w False
           = (st2, Completed \<lparr>er_success = False,
                               er_output = ''[pc2] Agente pc1 se desconecto.''\<rparr>))"
  by (simp add: new_mesh_def make_agent_def get_or_def run_command_dispatch_def
        find_best_agent_def is_alive_def float_sub_def available_slots_def HEARTBEAT_TIMEOUT_def
        list_sort_def load_ratio_def float_eval update_agent_obj_def run_command_wait_def
        agent_obj_def cleanup_agent_def AList.delete_eq)

end
